theory Spec2Isabelle
  imports Main "HOL-Library.Sublist"
begin

section \<open>The protocol base classes of tinyrpc\<close>

text \<open>
  The module \<^verbatim>\<open>tinyrpc/protocols/__init__.py\<close> declares eight classes,
  \<^verbatim>\<open>RPCRequest\<close>, \<^verbatim>\<open>RPCBatchRequest\<close>, \<^verbatim>\<open>RPCResponse\<close>, \<^verbatim>\<open>RPCBatchResponse\<close>,
  \<^verbatim>\<open>RPCErrorResponse\<close>, \<^verbatim>\<open>RPCSuccessResponse\<close>, \<^verbatim>\<open>RPCProtocol\<close> and
  \<^verbatim>\<open>RPCBatchProtocol\<close>, their class attributes, and eleven methods whose whole body is
  \<^verbatim>\<open>raise RuntimeError('Not implemented')\<close>. What the module computes is therefore
  decided by Python's attribute resolution over the class hierarchy, and by those bodies.
  Both are modelled here: the hierarchy as a table of bases with its linearisation, each
  class body as an association list in source order, and each \<^verbatim>\<open>def\<close> as a function
  returning an exception (\<open>Inl\<close>) or a value (\<open>Inr\<close>).
\<close>

subsection \<open>Names, exceptions and values\<close>

text \<open>
  Every attribute name that a class body of the module binds. The builtin classes
  \<^verbatim>\<open>list\<close> and \<^verbatim>\<open>object\<close> bind none of these names, so over this type of names their
  bodies are empty. (\<open>method_attr\<close> is the attribute \<^verbatim>\<open>method\<close> of a request.)
\<close>

datatype attr_name =
    unique_id | method_attr | args | kwargs
  | error_respond | respond | serialize
  | is_error | create_batch_response
  | error | result
  | supports_out_of_order
  | create_request | create_error_response | parse_request | parse_reply
  | create_batch_request

text \<open>
  Modelled from the spec: the exception classes of \<^verbatim>\<open>tinyrpc.exc\<close>, which the module
  imports with \<^verbatim>\<open>from ..exc import *\<close> and which is not among the sources. The spec
  names three RPCError-class conditions.
\<close>

datatype rpc_error = UnsupportedArgumentsError | ParseError | InvalidRequestError

text \<open>
  The exceptions a call can end in: \<^verbatim>\<open>RuntimeError(msg)\<close> as the bodies raise it,
  \<^verbatim>\<open>AttributeError\<close> for a name that no class of the receiver's linearisation binds,
  \<^verbatim>\<open>TypeError\<close> for calling an attribute that is not a function, and the
  RPCError-class conditions above.
\<close>

datatype exn =
    RuntimeError string
  | AttributeError attr_name
  | TypeError string
  | RPCError rpc_error

datatype cls =
    PyObject | PyList
  | RPCRequest | RPCBatchRequest
  | RPCResponse | RPCBatchResponse | RPCErrorResponse | RPCSuccessResponse
  | RPCProtocol | RPCBatchProtocol

text \<open>
  Python values, and the instances of the classes above: \<open>Inst c xs\<close> is an instance of
  class \<open>c\<close>, and \<open>xs\<close> are its elements when \<open>c\<close> derives from \<^verbatim>\<open>list\<close>. The
  module defines no \<^verbatim>\<open>__init__\<close> and assigns no instance attribute, so an instance
  carries no attributes of its own: what it has, it has from its class. \<open>PFunc d n\<close> is
  the function that the body of class \<open>d\<close> binds to \<open>n\<close>; \<open>PExc e\<close> is an exception
  object passed around as a value.
\<close>

datatype pyval =
    PNone
  | PBool bool
  | PInt int
  | PStr string
  | PList "pyval list"
  | PDict "(string \<times> pyval) list"
  | PExc exn
  | PFunc cls attr_name
  | PObj pyobj
and pyobj = Inst cls "pyval list"

type_synonym 'a outcome = "exn + 'a"

text \<open>
  Modelled from the spec: \<^verbatim>\<open>isinstance(e, RPCError)\<close> for the classes of
  \<^verbatim>\<open>tinyrpc.exc\<close> named above. The builtin exceptions are not among them.
\<close>

fun is_rpc_error :: "exn \<Rightarrow> bool" where
  "is_rpc_error (RPCError k) = True"
| "is_rpc_error (RuntimeError m) = False"
| "is_rpc_error (AttributeError n) = False"
| "is_rpc_error (TypeError m) = False"

text \<open>
  Modelled from the spec: a ParseError/InvalidRequestError-class condition, the two
  classes of \<^verbatim>\<open>tinyrpc.exc\<close> that the spec gives to a failed parse.
\<close>

fun is_parse_error :: "exn \<Rightarrow> bool" where
  "is_parse_error (RPCError ParseError) = True"
| "is_parse_error (RPCError InvalidRequestError) = True"
| "is_parse_error (RPCError UnsupportedArgumentsError) = False"
| "is_parse_error (RuntimeError m) = False"
| "is_parse_error (AttributeError n) = False"
| "is_parse_error (TypeError m) = False"

subsection \<open>The class hierarchy\<close>

text \<open>The bases of each \<^verbatim>\<open>class\<close> statement, in the order written.\<close>

fun bases :: "cls \<Rightarrow> cls list" where
  "bases PyObject = []"
| "bases PyList = [PyObject]"
| "bases RPCRequest = [PyObject]"
| "bases RPCBatchRequest = [PyList, RPCRequest]"
| "bases RPCResponse = [PyObject]"
| "bases RPCBatchResponse = [PyList, RPCResponse]"
| "bases RPCErrorResponse = [RPCResponse]"
| "bases RPCSuccessResponse = [RPCResponse]"
| "bases RPCProtocol = [PyObject]"
| "bases RPCBatchProtocol = [RPCProtocol]"

text \<open>
  The method resolution order (\<^verbatim>\<open>__mro__\<close>) of each class: the class itself, then its
  bases left to right, every class before its own bases.
\<close>

fun mro :: "cls \<Rightarrow> cls list" where
  "mro PyObject = [PyObject]"
| "mro PyList = [PyList, PyObject]"
| "mro RPCRequest = [RPCRequest, PyObject]"
| "mro RPCBatchRequest = [RPCBatchRequest, PyList, RPCRequest, PyObject]"
| "mro RPCResponse = [RPCResponse, PyObject]"
| "mro RPCBatchResponse = [RPCBatchResponse, PyList, RPCResponse, PyObject]"
| "mro RPCErrorResponse = [RPCErrorResponse, RPCResponse, PyObject]"
| "mro RPCSuccessResponse = [RPCSuccessResponse, RPCResponse, PyObject]"
| "mro RPCProtocol = [RPCProtocol, PyObject]"
| "mro RPCBatchProtocol = [RPCBatchProtocol, RPCProtocol, PyObject]"

definition issubclass :: "cls \<Rightarrow> cls \<Rightarrow> bool" where
  "issubclass c d = (d \<in> set (mro c))"

subsection \<open>The class bodies\<close>

text \<open>A name bound in a class body is bound to a value or, by \<^verbatim>\<open>def\<close>, to a function.\<close>

datatype member = Value pyval | Function

fun class_body :: "cls \<Rightarrow> (attr_name \<times> member) list" where
  "class_body PyObject = []"
| "class_body PyList = []"
| "class_body RPCRequest =
     [(unique_id, Value PNone), (method_attr, Value PNone), (args, Value PNone),
      (kwargs, Value PNone),
      (error_respond, Function), (respond, Function), (serialize, Function)]"
| "class_body RPCBatchRequest = []"
| "class_body RPCResponse = [(is_error, Value (PBool False)), (serialize, Function)]"
| "class_body RPCBatchResponse = [(create_batch_response, Function), (serialize, Function)]"
| "class_body RPCErrorResponse = [(is_error, Value (PBool True)), (error, Value PNone)]"
| "class_body RPCSuccessResponse = [(is_error, Value (PBool False)), (result, Value PNone)]"
| "class_body RPCProtocol =
     [(supports_out_of_order, Value (PBool False)),
      (create_request, Function), (create_error_response, Function),
      (parse_request, Function), (parse_reply, Function)]"
| "class_body RPCBatchProtocol = [(create_batch_request, Function)]"

text \<open>
  Attribute resolution: the first class of the linearisation whose body binds the name
  provides it.
\<close>

fun lookup_mro :: "cls list \<Rightarrow> attr_name \<Rightarrow> (cls \<times> member) option" where
  "lookup_mro [] n = None"
| "lookup_mro (d # ds) n =
     (case map_of (class_body d) n of
        Some m \<Rightarrow> Some (d, m)
      | None \<Rightarrow> lookup_mro ds n)"

definition lookup :: "cls \<Rightarrow> attr_name \<Rightarrow> (cls \<times> member) option" where
  "lookup c n = lookup_mro (mro c) n"

text \<open>\<^verbatim>\<open>obj.n\<close>, read on an instance of one of the classes.\<close>

fun getattr :: "pyobj \<Rightarrow> attr_name \<Rightarrow> pyval outcome" where
  "getattr (Inst c xs) n =
     (case lookup c n of
        Some (d, Value v) \<Rightarrow> Inr v
      | Some (d, Function) \<Rightarrow> Inr (PFunc d n)
      | None \<Rightarrow> Inl (AttributeError n))"

subsection \<open>The method bodies\<close>

text \<open>
  One definition per \<^verbatim>\<open>def\<close> of the module, with the receiver and the parameters of
  the source. Each body is the single statement \<^verbatim>\<open>raise RuntimeError('Not implemented')\<close>.
\<close>

definition RPCRequest_error_respond :: "pyobj \<Rightarrow> pyval \<Rightarrow> pyval outcome" where
  "RPCRequest_error_respond self err = Inl (RuntimeError ''Not implemented'')"

definition RPCRequest_respond :: "pyobj \<Rightarrow> pyval \<Rightarrow> pyval outcome" where
  "RPCRequest_respond self res = Inl (RuntimeError ''Not implemented'')"

definition RPCRequest_serialize :: "pyobj \<Rightarrow> pyval outcome" where
  "RPCRequest_serialize self = Inl (RuntimeError ''Not implemented'')"

definition RPCResponse_serialize :: "pyobj \<Rightarrow> pyval outcome" where
  "RPCResponse_serialize self = Inl (RuntimeError ''Not implemented'')"

definition RPCBatchResponse_create_batch_response :: "pyobj \<Rightarrow> pyval outcome" where
  "RPCBatchResponse_create_batch_response self = Inl (RuntimeError ''Not implemented'')"

definition RPCBatchResponse_serialize :: "pyobj \<Rightarrow> pyval outcome" where
  "RPCBatchResponse_serialize self = Inl (RuntimeError ''Not implemented'')"

definition RPCProtocol_create_request ::
    "pyobj \<Rightarrow> pyval \<Rightarrow> pyval \<Rightarrow> pyval \<Rightarrow> pyval \<Rightarrow> pyval outcome" where
  "RPCProtocol_create_request self meth as kws one_way = Inl (RuntimeError ''Not implemented'')"

definition RPCProtocol_create_error_response :: "pyobj \<Rightarrow> pyval \<Rightarrow> pyval outcome" where
  "RPCProtocol_create_error_response self err = Inl (RuntimeError ''Not implemented'')"

definition RPCProtocol_parse_request :: "pyobj \<Rightarrow> pyval \<Rightarrow> pyval outcome" where
  "RPCProtocol_parse_request self data = Inl (RuntimeError ''Not implemented'')"

definition RPCProtocol_parse_reply :: "pyobj \<Rightarrow> pyval \<Rightarrow> pyval outcome" where
  "RPCProtocol_parse_reply self data = Inl (RuntimeError ''Not implemented'')"

definition RPCBatchProtocol_create_batch_request :: "pyobj \<Rightarrow> pyval \<Rightarrow> pyval outcome" where
  "RPCBatchProtocol_create_batch_request self requests = Inl (RuntimeError ''Not implemented'')"

subsection \<open>Method calls\<close>

text \<open>
  A call \<^verbatim>\<open>obj.n(...)\<close> of one of the module's methods, with its arguments; the
  defaults of the source (\<^verbatim>\<open>args=None, kwargs=None, one_way=False\<close>,
  \<^verbatim>\<open>requests=None\<close>) are what the caller passes when it leaves an argument out.
\<close>

datatype call =
    Error_respond pyval
  | Respond pyval
  | Serialize
  | Create_batch_response
  | Create_request pyval pyval pyval pyval
  | Create_error_response pyval
  | Parse_request pyval
  | Parse_reply pyval
  | Create_batch_request pyval

fun name_of :: "call \<Rightarrow> attr_name" where
  "name_of (Error_respond e) = error_respond"
| "name_of (Respond r) = respond"
| "name_of Serialize = serialize"
| "name_of Create_batch_response = create_batch_response"
| "name_of (Create_request m a k w) = create_request"
| "name_of (Create_error_response e) = create_error_response"
| "name_of (Parse_request d) = parse_request"
| "name_of (Parse_reply d) = parse_reply"
| "name_of (Create_batch_request rs) = create_batch_request"

text \<open>
  The function that class \<open>d\<close> defines under the call's name, applied to the receiver
  and the arguments. Attribute resolution only ever selects a class that defines the
  name; the last equation makes the function total.
\<close>

fun apply_def :: "cls \<Rightarrow> pyobj \<Rightarrow> call \<Rightarrow> pyval outcome" where
  "apply_def RPCRequest self (Error_respond e) = RPCRequest_error_respond self e"
| "apply_def RPCRequest self (Respond r) = RPCRequest_respond self r"
| "apply_def RPCRequest self Serialize = RPCRequest_serialize self"
| "apply_def RPCResponse self Serialize = RPCResponse_serialize self"
| "apply_def RPCBatchResponse self Create_batch_response =
     RPCBatchResponse_create_batch_response self"
| "apply_def RPCBatchResponse self Serialize = RPCBatchResponse_serialize self"
| "apply_def RPCProtocol self (Create_request m a k w) = RPCProtocol_create_request self m a k w"
| "apply_def RPCProtocol self (Create_error_response e) =
     RPCProtocol_create_error_response self e"
| "apply_def RPCProtocol self (Parse_request d) = RPCProtocol_parse_request self d"
| "apply_def RPCProtocol self (Parse_reply d) = RPCProtocol_parse_reply self d"
| "apply_def RPCBatchProtocol self (Create_batch_request rs) =
     RPCBatchProtocol_create_batch_request self rs"
| "apply_def d self k = Inl (AttributeError (name_of k))"

text \<open>
  \<^verbatim>\<open>obj.n(...)\<close>: resolve the name on the receiver's class, then run the function
  found. A name that resolves to nothing raises \<^verbatim>\<open>AttributeError\<close>; a name bound to a
  value that is no function raises \<^verbatim>\<open>TypeError\<close>.
\<close>

fun invoke :: "pyobj \<Rightarrow> call \<Rightarrow> pyval outcome" where
  "invoke (Inst c xs) k =
     (case lookup c (name_of k) of
        Some (d, Function) \<Rightarrow> apply_def d (Inst c xs) k
      | Some (d, Value v) \<Rightarrow> Inl (TypeError ''object is not callable'')
      | None \<Rightarrow> Inl (AttributeError (name_of k)))"

section \<open>Sanity of the hierarchy\<close>

lemma mro_starts_with_class: "hd (mro c) = c"
  by (cases c) simp_all

lemma mro_distinct: "distinct (mro c)"
  by (cases c) simp_all

lemma mro_keeps_bases_order: "subseq (bases c) (mro c)"
  by (cases c) simp_all

lemma mro_extends_bases: "b \<in> set (bases c) \<Longrightarrow> subseq (mro b) (mro c)"
  by (cases c) auto

lemmas body_defs =
  RPCRequest_error_respond_def RPCRequest_respond_def RPCRequest_serialize_def
  RPCResponse_serialize_def RPCBatchResponse_create_batch_response_def
  RPCBatchResponse_serialize_def RPCProtocol_create_request_def
  RPCProtocol_create_error_response_def RPCProtocol_parse_request_def
  RPCProtocol_parse_reply_def RPCBatchProtocol_create_batch_request_def

section \<open>The unimplemented operations\<close>

text \<open>
  C10: each operation of the base classes raises \<^verbatim>\<open>RuntimeError('Not implemented')\<close>
  instead of returning a value, whatever the receiver holds and whatever the arguments are:
  \<^verbatim>\<open>respond\<close>, \<^verbatim>\<open>error_respond\<close> and \<^verbatim>\<open>serialize\<close> of a request,
  \<^verbatim>\<open>serialize\<close> of a response, \<^verbatim>\<open>create_request\<close>,
  \<^verbatim>\<open>create_error_response\<close>, \<^verbatim>\<open>parse_request\<close> and \<^verbatim>\<open>parse_reply\<close> of a
  protocol, and \<^verbatim>\<open>create_batch_request\<close> of a batch protocol.
\<close>

theorem base_operations_not_implemented:
  "invoke (Inst RPCRequest xs) (Respond res) = Inl (RuntimeError ''Not implemented'')
   \<and> invoke (Inst RPCRequest xs) (Error_respond err) = Inl (RuntimeError ''Not implemented'')
   \<and> invoke (Inst RPCRequest xs) Serialize = Inl (RuntimeError ''Not implemented'')
   \<and> invoke (Inst RPCResponse xs) Serialize = Inl (RuntimeError ''Not implemented'')
   \<and> invoke (Inst RPCProtocol xs) (Create_request m a k w)
         = Inl (RuntimeError ''Not implemented'')
   \<and> invoke (Inst RPCProtocol xs) (Create_error_response err)
         = Inl (RuntimeError ''Not implemented'')
   \<and> invoke (Inst RPCProtocol xs) (Parse_request d) = Inl (RuntimeError ''Not implemented'')
   \<and> invoke (Inst RPCProtocol xs) (Parse_reply d) = Inl (RuntimeError ''Not implemented'')
   \<and> invoke (Inst RPCBatchProtocol xs) (Create_batch_request rs)
         = Inl (RuntimeError ''Not implemented'')"
  by (simp add: lookup_def body_defs)

section \<open>Class attributes\<close>

text \<open>
  C2: \<^verbatim>\<open>is_error\<close> tells the variants apart. An instance of \<^verbatim>\<open>RPCErrorResponse\<close>
  reads \<^verbatim>\<open>is_error\<close> as true, an instance of \<^verbatim>\<open>RPCSuccessResponse\<close> reads it as
  false, and among all response classes of the module (the classes deriving from
  \<^verbatim>\<open>RPCResponse\<close>, the batch response included) \<^verbatim>\<open>RPCErrorResponse\<close> is the only one
  whose instances read it as true.
\<close>

theorem is_error_discriminant:
  "getattr (Inst RPCErrorResponse xs) is_error = Inr (PBool True)
   \<and> getattr (Inst RPCSuccessResponse xs) is_error = Inr (PBool False)
   \<and> (\<forall>c. issubclass c RPCResponse \<longrightarrow>
          (getattr (Inst c xs) is_error = Inr (PBool True)) = (c = RPCErrorResponse))"
proof (intro conjI allI impI)
  fix c assume "issubclass c RPCResponse"
  then show "(getattr (Inst c xs) is_error = Inr (PBool True)) = (c = RPCErrorResponse)"
    by (cases c) (simp_all add: issubclass_def lookup_def)
qed (simp_all add: lookup_def)

text \<open>
  The discriminant at the batch response, which inherits \<^verbatim>\<open>is_error = False\<close> from
  \<^verbatim>\<open>RPCResponse\<close> through \<^verbatim>\<open>list\<close>, and at the error response.
\<close>

theorem is_error_discriminant_witness:
  "issubclass RPCBatchResponse RPCResponse
   \<and> getattr (Inst RPCBatchResponse []) is_error = Inr (PBool False)
   \<and> getattr (Inst RPCErrorResponse []) is_error = Inr (PBool True)"
  using is_error_discriminant [of "[]"]
  by (simp add: issubclass_def lookup_def)

text \<open>
  The two defaults of the module: every protocol class reads
  \<^verbatim>\<open>supports_out_of_order\<close> as false (the attribute of \<^verbatim>\<open>RPCProtocol\<close>, inherited
  by \<^verbatim>\<open>RPCBatchProtocol\<close>), and every request class, single or batch, reads
  \<^verbatim>\<open>unique_id\<close> as \<^verbatim>\<open>None\<close>. The module relates no request to a protocol.
\<close>

lemma protocol_default_supports_out_of_order:
  "issubclass pc RPCProtocol \<Longrightarrow>
     getattr (Inst pc ys) supports_out_of_order = Inr (PBool False)"
  by (cases pc) (simp_all add: issubclass_def lookup_def)

lemma request_default_unique_id:
  "issubclass rc RPCRequest \<Longrightarrow> getattr (Inst rc xs) unique_id = Inr PNone"
  by (cases rc) (simp_all add: issubclass_def lookup_def)

section \<open>Contracts that the base classes leave to subclasses\<close>

text \<open>
  The docstrings of the module describe what a protocol-specific subclass is to return.
  The base classes themselves implement none of it: the following theorems say, claim by
  claim, what a call on the classes of this module does instead.
\<close>

subsection \<open>Batch responses\<close>

text \<open>
  C1: the batch request is to provide \<^verbatim>\<open>create_batch_response()\<close>, returning
  \<^verbatim>\<open>None\<close> when every element is one-way and an empty batch response otherwise. The
  code does not provide it. The \<^verbatim>\<open>def\<close> stands in the body of
  \<^verbatim>\<open>RPCBatchResponse\<close>, although its docstring reads "Creates a response suitable for
  responding to this request"; the body of \<^verbatim>\<open>RPCBatchRequest\<close> is \<^verbatim>\<open>pass\<close>, and
  neither \<^verbatim>\<open>list\<close> nor \<^verbatim>\<open>RPCRequest\<close> binds the name. So on every batch request,
  whatever it holds, the call ends in \<^verbatim>\<open>AttributeError\<close>: it returns neither
  \<^verbatim>\<open>None\<close> nor a container, and it does not even reach the stub.
\<close>

theorem create_batch_response_missing_on_batch_request:
  "lookup RPCBatchRequest create_batch_response = None
   \<and> lookup RPCBatchResponse create_batch_response = Some (RPCBatchResponse, Function)
   \<and> invoke (Inst RPCBatchRequest xs) Create_batch_response
       = Inl (AttributeError create_batch_response)
   \<and> invoke (Inst RPCBatchRequest []) Create_batch_response \<noteq> Inr PNone
   \<and> invoke (Inst RPCBatchRequest [PObj (Inst RPCRequest [])]) Create_batch_response
       \<noteq> Inr (PObj (Inst RPCBatchResponse []))
   \<and> invoke (Inst RPCBatchResponse ys) Create_batch_response
       = Inl (RuntimeError ''Not implemented'')"
  by (simp add: lookup_def body_defs)

subsection \<open>Creating requests\<close>

text \<open>
  No protocol class of the module creates a request: \<^verbatim>\<open>create_request\<close> raises for
  every method, \<^verbatim>\<open>args\<close>, \<^verbatim>\<open>kwargs\<close> and \<^verbatim>\<open>one_way\<close>, and so returns no
  request, one-way or not. What holds of "a request created by the protocol" holds, at
  this layer, of nothing.
\<close>

lemma create_request_never_returns:
  "issubclass pc RPCProtocol \<Longrightarrow>
     invoke (Inst pc ys) (Create_request m a k w) = Inl (RuntimeError ''Not implemented'')
     \<and> invoke (Inst pc ys) (Create_request m a k w) \<noteq> Inr r"
  by (cases pc) (simp_all add: issubclass_def lookup_def body_defs)

subsection \<open>Parsing\<close>

text \<open>
  C5, as stated, fails. Parsing batch data with a malformed second element on the batch
  protocol raises for the whole input: no batch request comes back, with or without an
  error marker in it.
\<close>

theorem batch_parse_counterexample:
  "invoke (Inst RPCBatchProtocol []) (Parse_request (PStr ''[{}, 1]''))
     = Inl (RuntimeError ''Not implemented'')
   \<and> invoke (Inst RPCBatchProtocol []) (Parse_request (PStr ''[{}, 1]''))
     \<noteq> Inr (PObj (Inst RPCBatchRequest
              [PObj (Inst RPCRequest []), PExc (RPCError InvalidRequestError)]))"
  by (simp add: lookup_def body_defs)

text \<open>
  C5, amended: the module parses no batch. On every protocol class of the module
  \<^verbatim>\<open>parse_request\<close> raises \<^verbatim>\<open>RuntimeError('Not implemented')\<close> for the whole input,
  whatever the data and whether or not an element of it is malformed, and so it never
  returns a batch request, whatever its items.
\<close>

theorem batch_parse_unimplemented:
  "issubclass pc RPCProtocol \<Longrightarrow>
     invoke (Inst pc ys) (Parse_request data) = Inl (RuntimeError ''Not implemented'')
     \<and> invoke (Inst pc ys) (Parse_request data) \<noteq> Inr (PObj (Inst RPCBatchRequest items))"
  by (cases pc) (simp_all add: issubclass_def lookup_def body_defs)

text \<open>The batch protocol on the same batch data.\<close>

theorem batch_parse_unimplemented_witness:
  "issubclass RPCBatchProtocol RPCProtocol
   \<and> invoke (Inst RPCBatchProtocol []) (Parse_request (PStr ''[{}, 1]''))
       = Inl (RuntimeError ''Not implemented'')"
proof -
  have p: "issubclass RPCBatchProtocol RPCProtocol" by (simp add: issubclass_def)
  from batch_parse_unimplemented [OF p, of "[]" "PStr ''[{}, 1]''"] p
  show ?thesis by simp
qed

text \<open>
  C6, as stated, fails. On malformed data \<^verbatim>\<open>parse_request\<close> fails with the builtin
  \<^verbatim>\<open>RuntimeError\<close>, which is no ParseError/InvalidRequestError-class condition and no
  RPCError at all.
\<close>

theorem parse_request_counterexample:
  "invoke (Inst RPCProtocol []) (Parse_request (PStr ''not valid data''))
     = Inl (RuntimeError ''Not implemented'')
   \<and> \<not> is_parse_error (RuntimeError ''Not implemented'')
   \<and> \<not> is_rpc_error (RuntimeError ''Not implemented'')"
  by (simp add: lookup_def body_defs)

text \<open>
  C6, amended: for every input, malformed or not, \<^verbatim>\<open>parse_request\<close> on a protocol
  class of the module fails, and the failure is \<^verbatim>\<open>RuntimeError('Not implemented')\<close>: an
  uncategorised builtin error, not a ParseError/InvalidRequestError-class condition.
\<close>

theorem parse_request_raises_runtime_error:
  "issubclass pc RPCProtocol \<Longrightarrow>
     (\<exists>e. invoke (Inst pc ys) (Parse_request data) = Inl e
          \<and> e = RuntimeError ''Not implemented''
          \<and> \<not> is_parse_error e \<and> \<not> is_rpc_error e)"
  by (cases pc) (simp_all add: issubclass_def lookup_def body_defs)

text \<open>The base protocol on data that is no request.\<close>

theorem parse_request_raises_runtime_error_witness:
  "issubclass RPCProtocol RPCProtocol
   \<and> (\<exists>e. invoke (Inst RPCProtocol []) (Parse_request (PStr ''not valid data'')) = Inl e
          \<and> \<not> is_parse_error e)"
proof -
  have p: "issubclass RPCProtocol RPCProtocol" by (simp add: issubclass_def)
  from parse_request_raises_runtime_error [OF p, of "[]" "PStr ''not valid data''"] p
  show ?thesis by blast
qed

subsection \<open>Error responses without a request\<close>

text \<open>
  C8, as stated, fails. Given the exception of the failed parse, or a plain string,
  \<^verbatim>\<open>create_error_response\<close> on the base protocol raises; it returns no error response.
\<close>

theorem create_error_response_counterexample:
  "invoke (Inst RPCProtocol [])
       (Create_error_response (PExc (RuntimeError ''Not implemented'')))
     = Inl (RuntimeError ''Not implemented'')
   \<and> invoke (Inst RPCProtocol []) (Create_error_response (PStr ''not valid data''))
     = Inl (RuntimeError ''Not implemented'')
   \<and> invoke (Inst RPCProtocol []) (Create_error_response (PStr ''not valid data''))
     \<noteq> Inr (PObj (Inst RPCErrorResponse []))"
  by (simp add: lookup_def body_defs)

text \<open>
  C8, amended: on every protocol class of the module \<^verbatim>\<open>create_error_response(error)\<close>
  raises \<^verbatim>\<open>RuntimeError('Not implemented')\<close> for every error value, exception or
  string; it returns nothing.
\<close>

theorem create_error_response_unimplemented:
  "issubclass pc RPCProtocol \<Longrightarrow>
     invoke (Inst pc ys) (Create_error_response err) = Inl (RuntimeError ''Not implemented'')"
  by (cases pc) (simp_all add: issubclass_def lookup_def body_defs)

text \<open>The batch protocol, given an RPCError-class exception.\<close>

theorem create_error_response_unimplemented_witness:
  "issubclass RPCBatchProtocol RPCProtocol
   \<and> invoke (Inst RPCBatchProtocol []) (Create_error_response (PExc (RPCError ParseError)))
       = Inl (RuntimeError ''Not implemented'')"
proof -
  have p: "issubclass RPCBatchProtocol RPCProtocol" by (simp add: issubclass_def)
  from create_error_response_unimplemented [OF p, of "[]" "PExc (RPCError ParseError)"] p
  show ?thesis by simp
qed

end
